theory Spec2Isabelle
  imports Main
begin

section \<open>The adapter between a UI component and the Unity web runtime\<close>

text \<open>
  The development embeds the class \<open>UnityContent\<close> of \<^verbatim>\<open>src/source/UnityContent.ts\<close>.
  A method of the class becomes a function from the state it reads to the state it
  leaves behind, together with the list of calls it made to its collaborators, in the
  order in which it made them.

  The collaborators are not part of the class: the event callbacks handed to \<open>on\<close>,
  the runtime instance (\<open>SetFullscreen\<close>, \<open>SendMessage\<close>, \<open>Quit\<close>) and the logging
  service. A call to one of them is recorded, with its arguments. The runtime
  instance and the logging service are taken to return normally. An event callback
  is any function: it may throw, and it may call the methods of the handle it is
  registered on. A callback is a value of an arbitrary type \<open>'cb\<close>, and what the
  callbacks do is a parameter of the methods that call them (\<open>behaviour\<close> below).
\<close>

subsection \<open>JavaScript values and optional parameters\<close>

text \<open>
  The values that cross the interface have type \<open>any\<close>. The class only compares them
  (\<open>=== true\<close>, \<open>typeof \<dots> === "undefined"\<close>) and passes them on, and never computes
  with them, so numbers are represented by integers and objects by a reference.
\<close>

datatype jsval =
    JUndefined
  | JNull
  | JBoolean bool
  | JNumber int
  | JString string
  | JObject nat

text \<open>
  An optional parameter (\<open>parameter?: any\<close>, \<open>eventValue?: any\<close>): the caller passes an
  argument or leaves it out, and the parameter is bound to \<open>undefined\<close> when it was
  left out.
\<close>

fun optional_parameter :: "jsval option \<Rightarrow> jsval" where
  "optional_parameter None = JUndefined"
| "optional_parameter (Some v) = v"

text \<open>
  \<open>++n\<close> on a \<open>number\<close>. A number is an IEEE 754 double; the counter of the class
  starts at 0 and is only ever incremented, so its values are the integers from 0 to
  \<open>2 ^ 53\<close>: below \<open>2 ^ 53\<close> the sum \<open>n + 1\<close> is exact, and \<open>2 ^ 53 + 1\<close> is not
  representable and rounds (ties to even) back to \<open>2 ^ 53\<close>. The definition is the
  increment on that range.
\<close>

definition number_increment :: "nat \<Rightarrow> nat" where
  "number_increment n = (if n < 2 ^ 53 then n + 1 else n)"

subsection \<open>The data model\<close>

text \<open>
  Modelled from the spec: the declaration of \<open>IUnityConfig\<close>
  (\<^verbatim>\<open>interfaces/IUnityConfig\<close>) is not among the sources. The spec gives the
  configuration surface \<open>{ modules?: mapping, unityVersion?: string,
  adjustOnWindowResize?: boolean, id?: string }\<close>, every field optional; the
  constructor reads exactly these four fields. \<open>None\<close> is an absent field.
\<close>

record IUnityConfig =
  modules :: "(string \<rightharpoonup> jsval) option"
  unityVersion :: "string option"
  adjustOnWindowResize :: "bool option"
  id_field :: "string option"

text \<open>
  Modelled from the spec: the declaration of \<open>IUnityEvent\<close>
  (\<^verbatim>\<open>interfaces/IUnityEvent\<close>) is not among the sources. \<open>on\<close> builds its values
  with the two fields \<open>eventName\<close> and \<open>eventCallback\<close>.
\<close>

record 'cb IUnityEvent =
  eventName :: string
  eventCallback :: 'cb

text \<open>
  Modelled from the spec: the declaration of \<open>UnityInstance\<close>
  (\<^verbatim>\<open>declarations/UnityInstance\<close>) is not among the sources. The spec asks of the
  runtime instance a fullscreen toggle, a message send, and an optional
  asynchronous shutdown that takes a completion callback. An instance is an object
  reference; \<open>Quit_is_function\<close> is the value of
  \<open>typeof unityInstance.Quit === "function"\<close>.
\<close>

record UnityInstance =
  instance_ref :: nat
  Quit_is_function :: bool

text \<open>The hosting component is only stored: an object reference.\<close>

type_synonym UnityComponent = nat

text \<open>
  The fields of the class. \<open>unityComponent\<close> and \<open>unityInstance\<close> are declared
  \<open>?:\<close>, that is \<open>T | undefined\<close>; \<open>None\<close> is \<open>undefined\<close>.
\<close>

record 'cb UnityContent =
  buildJsonPath :: string
  unityLoaderJsPath :: string
  unityComponent :: "UnityComponent option"
  unityInstance :: "UnityInstance option"
  unityConfig :: IUnityConfig
  unityEvents :: "'cb IUnityEvent list"
  uniqueID :: nat

text \<open>
  What all handles of one process share: the static field \<open>UnityContent.uniqueID\<close>
  and the global \<open>window.ReactUnityWebGL\<close> (\<open>None\<close> while it is \<open>undefined\<close>). An
  entry of the global object is the arrow function
  \<open>(parameter) => eventCallback(parameter)\<close> that \<open>on\<close> stores; it is represented
  by the callback it forwards to.
\<close>

record 'cb process =
  static_uniqueID :: nat
  window_ReactUnityWebGL :: "(string \<rightharpoonup> 'cb) option"

text \<open>
  A process before any handle exists: the static initialiser sets the counter to 0,
  and nothing has created the global object yet.
\<close>

definition initial_process :: "'cb process" where
  "initial_process = \<lparr>static_uniqueID = 0, window_ReactUnityWebGL = None\<rparr>"

subsection \<open>Calls to the collaborators\<close>

text \<open>
  How a call completes: normally, or by throwing. \<open>TypeError\<close> is what the
  language throws on a property access on \<open>undefined\<close>; a callback can throw any
  value.
\<close>

datatype js_error = TypeError | Thrown jsval

datatype completion = Returned | Threw js_error

text \<open>
  The callback handed to \<open>Quit\<close> is a function of the handle as it is when the
  instance runs it; it gives no result when it does not return.
\<close>

datatype 'cb call =
    EventCallback 'cb jsval
    \<comment> \<open>\<open>eventCallback(eventValue)\<close>\<close>
  | SetFullscreen UnityInstance nat
    \<comment> \<open>\<open>unityInstance.SetFullscreen(n)\<close>\<close>
  | SendMessage UnityInstance "jsval list"
    \<comment> \<open>\<open>unityInstance.SendMessage(\<dots>)\<close> with its argument list\<close>
  | Quit UnityInstance
      "'cb UnityContent \<Rightarrow> (completion \<times> 'cb call list \<times> 'cb UnityContent) option"
    \<comment> \<open>\<open>unityInstance.Quit(callback)\<close>\<close>
  | warnUnityContentRemoveNotAvailable
    \<comment> \<open>\<open>loggingService.warnUnityContentRemoveNotAvailable()\<close>\<close>

text \<open>
  What the callbacks do: called with a value while the handle is in a given state, a
  callback returns or throws, and leaves the handle in the state its own calls of the
  handle's methods have brought about. The calls it makes itself are its own and are
  not listed among the calls of the method that called it; what it does outside the
  handle has no influence on the methods.
\<close>

type_synonym 'cb behaviour =
  "'cb \<Rightarrow> jsval \<Rightarrow> 'cb UnityContent \<Rightarrow> completion \<times> 'cb UnityContent"

subsection \<open>The constructor\<close>

text \<open>
  \<open>a || b\<close> on an optional string: \<open>b\<close> when \<open>a\<close> is \<open>undefined\<close> or the empty
  string (the two falsy values of the type), \<open>a\<close> otherwise.
\<close>

fun string_or :: "string option \<Rightarrow> string \<Rightarrow> string" where
  "string_or None d = d"
| "string_or (Some s) d = (if s = [] then d else s)"

text \<open>\<open>a || {}\<close> on an optional object: every object is truthy.\<close>

fun object_or_empty :: "(string \<rightharpoonup> jsval) option \<Rightarrow> (string \<rightharpoonup> jsval)" where
  "object_or_empty None = Map.empty"
| "object_or_empty (Some m) = m"

definition empty_config :: IUnityConfig where
  "empty_config =
     \<lparr>modules = None, unityVersion = None, adjustOnWindowResize = None, id_field = None\<rparr>"

fun config_or_empty :: "IUnityConfig option \<Rightarrow> IUnityConfig" where
  "config_or_empty None = empty_config"
| "config_or_empty (Some c) = c"

definition constructor ::
  "'cb process \<Rightarrow> string \<Rightarrow> string \<Rightarrow> IUnityConfig option \<Rightarrow> 'cb process \<times> 'cb UnityContent"
where
  "constructor p buildJsonPath' unityLoaderJsPath' unityConfig' =
     (let unityConfig0 = config_or_empty unityConfig';
          n = number_increment (static_uniqueID p)
      in (\<lparr>static_uniqueID = n,
           window_ReactUnityWebGL =
             (case window_ReactUnityWebGL p of
                None \<Rightarrow> Some Map.empty
              | Some ns \<Rightarrow> Some ns)\<rparr>,
          \<lparr>buildJsonPath = buildJsonPath',
           unityLoaderJsPath = unityLoaderJsPath',
           unityComponent = None,
           unityInstance = None,
           unityConfig =
             \<lparr>modules = Some (object_or_empty (modules unityConfig0)),
              unityVersion = Some (string_or (unityVersion unityConfig0) ''undefined''),
              adjustOnWindowResize = adjustOnWindowResize unityConfig0,
              id_field = Some (string_or (id_field unityConfig0) ''nill'')\<rparr>,
           unityEvents = [],
           uniqueID = n\<rparr>))"

subsection \<open>The methods\<close>

definition setComponentInstance ::
  "'cb UnityContent \<Rightarrow> UnityComponent \<Rightarrow> 'cb call list \<times> 'cb UnityContent"
where
  "setComponentInstance h unityComponentInstance =
     ([], h\<lparr>unityComponent := Some unityComponentInstance\<rparr>)"

definition setUnityInstance ::
  "'cb UnityContent \<Rightarrow> UnityInstance \<Rightarrow> 'cb call list \<times> 'cb UnityContent"
where
  "setUnityInstance h inst = ([], h\<lparr>unityInstance := Some inst\<rparr>)"

definition setFullscreen :: "'cb UnityContent \<Rightarrow> jsval \<Rightarrow> 'cb call list \<times> 'cb UnityContent" where
  "setFullscreen h fullscreen =
     (case unityInstance h of
        None \<Rightarrow> ([], h)
      | Some inst \<Rightarrow> ([SetFullscreen inst (if fullscreen = JBoolean True then 1 else 0)], h))"

text \<open>
  The loop of \<open>triggerUnityEvent\<close>, from index \<open>_i\<close> on, with the calls made so
  far. The bound and the binding are read from the handle's list at every turn, as
  the callbacks called so far have left it. A binding is called when its name is the
  event's; when the callback throws, nothing catches it and the loop is over. A
  callback that keeps registering bindings of the same name keeps the loop running,
  and the function has no result then.
\<close>

partial_function (option) triggerUnityEvent_loop ::
  "'cb behaviour \<Rightarrow> nat \<Rightarrow> string \<Rightarrow> jsval \<Rightarrow> 'cb call list \<Rightarrow> 'cb UnityContent
     \<Rightarrow> (completion \<times> 'cb call list \<times> 'cb UnityContent) option"
where
  "triggerUnityEvent_loop run i name v cs h =
     (if i < length (unityEvents h)
      then if eventName (unityEvents h ! i) = name
           then (case run (eventCallback (unityEvents h ! i)) v h of
                   (Returned, h') \<Rightarrow>
                     triggerUnityEvent_loop run (Suc i) name v
                       (cs @ [EventCallback (eventCallback (unityEvents h ! i)) v]) h'
                 | (Threw e, h') \<Rightarrow>
                     Some (Threw e, cs @ [EventCallback (eventCallback (unityEvents h ! i)) v], h'))
           else triggerUnityEvent_loop run (Suc i) name v cs h
      else Some (Returned, cs, h))"

definition triggerUnityEvent ::
  "'cb behaviour \<Rightarrow> 'cb UnityContent \<Rightarrow> string \<Rightarrow> jsval option
     \<Rightarrow> (completion \<times> 'cb call list \<times> 'cb UnityContent) option"
where
  "triggerUnityEvent run h name eventValue =
     triggerUnityEvent_loop run 0 name (optional_parameter eventValue) [] h"

text \<open>
  The arrow function that \<open>remove\<close> hands to \<open>Quit\<close>. It runs when the instance
  calls it, on the handle as it is at that moment. The assignment to
  \<open>unityInstance\<close> follows the dispatch and is reached only when the dispatch
  returns.
\<close>

definition remove_Quit_callback ::
  "'cb behaviour \<Rightarrow> 'cb UnityContent
     \<Rightarrow> (completion \<times> 'cb call list \<times> 'cb UnityContent) option"
where
  "remove_Quit_callback run h =
     (case triggerUnityEvent run h ''quitted'' None of
        None \<Rightarrow> None
      | Some (Returned, cs, h') \<Rightarrow> Some (Returned, cs, h'\<lparr>unityInstance := None\<rparr>)
      | Some (Threw e, cs, h') \<Rightarrow> Some (Threw e, cs, h'))"

text \<open>
  \<open>remove\<close> returns at once, having asked the instance to quit or having logged the
  warning; the state is not touched before the instance calls back.
\<close>

definition remove_content ::
  "'cb behaviour \<Rightarrow> 'cb UnityContent \<Rightarrow> 'cb call list \<times> 'cb UnityContent"
where
  "remove_content run h =
     (case unityInstance h of
        None \<Rightarrow> ([warnUnityContentRemoveNotAvailable], h)
      | Some inst \<Rightarrow>
          if Quit_is_function inst then ([Quit inst (remove_Quit_callback run)], h)
          else ([warnUnityContentRemoveNotAvailable], h))"

definition send ::
  "'cb UnityContent \<Rightarrow> string \<Rightarrow> string \<Rightarrow> jsval option \<Rightarrow> 'cb call list \<times> 'cb UnityContent"
where
  "send h gameObjectName methodName parameter' =
     (let parameter = optional_parameter parameter'
      in case unityInstance h of
           None \<Rightarrow> ([], h)
         | Some inst \<Rightarrow>
             if parameter = JUndefined
             then ([SendMessage inst [JString gameObjectName, JString methodName]], h)
             else ([SendMessage inst [JString gameObjectName, JString methodName, parameter]], h))"

text \<open>
  \<open>on\<close> pushes the binding first and then assigns into the global object; the
  assignment throws when the global object is \<open>undefined\<close>, and the push has
  happened by then.
\<close>

definition on ::
  "'cb process \<Rightarrow> 'cb UnityContent \<Rightarrow> string \<Rightarrow> 'cb
     \<Rightarrow> completion \<times> 'cb process \<times> 'cb UnityContent"
where
  "on p h eventName' eventCallback' =
     (let h' = h\<lparr>unityEvents :=
                  unityEvents h @ [\<lparr>eventName = eventName', eventCallback = eventCallback'\<rparr>]\<rparr>
      in case window_ReactUnityWebGL p of
           None \<Rightarrow> (Threw TypeError, p, h')
         | Some ns \<Rightarrow>
             (Returned, p\<lparr>window_ReactUnityWebGL := Some (ns(eventName' \<mapsto> eventCallback'))\<rparr>, h'))"

text \<open>
  The runtime calling \<open>ReactUnityWebGL[name](arguments)\<close> on an entry that \<open>on\<close>
  has stored: the arrow function forwards its first parameter, \<open>undefined\<close> when
  there is none, to the callback. The result is \<open>None\<close> when the global object
  holds no such entry; what the call does then is not decided by this class.
\<close>

definition ReactUnityWebGL_call ::
  "'cb process \<Rightarrow> string \<Rightarrow> jsval list \<Rightarrow> 'cb call list option"
where
  "ReactUnityWebGL_call p name arguments =
     (case window_ReactUnityWebGL p of
        None \<Rightarrow> None
      | Some ns \<Rightarrow>
          (case ns name of
             None \<Rightarrow> None
           | Some cb \<Rightarrow>
               Some [EventCallback cb (case arguments of [] \<Rightarrow> JUndefined | a # _ \<Rightarrow> a)]))"

text \<open>
  A run of constructor calls in one process, each with its three arguments; the
  handles come back in the order of construction.
\<close>

fun constructions ::
  "'cb process \<Rightarrow> (string \<times> string \<times> IUnityConfig option) list
     \<Rightarrow> 'cb process \<times> 'cb UnityContent list"
where
  "constructions p [] = (p, [])"
| "constructions p ((b, l, c) # rest) =
     (case constructor p b l c of
        (p', h) \<Rightarrow> (case constructions p' rest of (p'', hs) \<Rightarrow> (p'', h # hs)))"

subsection \<open>Callbacks that return\<close>

text \<open>
  Every callback bound to the name in the list returns when it is called with the
  value on a handle that has this binding list, and leaves the binding list as it
  is. It may change the rest of the handle.
\<close>

definition listeners_return ::
  "'cb behaviour \<Rightarrow> 'cb IUnityEvent list \<Rightarrow> string \<Rightarrow> jsval \<Rightarrow> bool"
where
  "listeners_return run evs name v =
     (\<forall>e \<in> set evs. eventName e = name \<longrightarrow>
        (\<forall>h. unityEvents h = evs \<longrightarrow>
           fst (run (eventCallback e) v h) = Returned
           \<and> unityEvents (snd (run (eventCallback e) v h)) = evs))"

text \<open>The handle after the callbacks of the bindings have run on it one after the other.\<close>

definition after_callbacks ::
  "'cb behaviour \<Rightarrow> jsval \<Rightarrow> 'cb IUnityEvent list \<Rightarrow> 'cb UnityContent \<Rightarrow> 'cb UnityContent"
where
  "after_callbacks run v evs h = fold (\<lambda>e h'. snd (run (eventCallback e) v h')) evs h"

subsection \<open>A sample session\<close>

text \<open>
  The first handle of a process, built without a configuration, and a runtime
  instance that can quit. Callbacks are numbered.
\<close>

definition first_handle :: "nat process \<times> nat UnityContent" where
  "first_handle = constructor initial_process ''Build/game.json'' ''Build/UnityLoader.js'' None"

definition quitting_instance :: UnityInstance where
  "quitting_instance = \<lparr>instance_ref = 7, Quit_is_function = True\<rparr>"

definition plain_instance :: UnityInstance where
  "plain_instance = \<lparr>instance_ref = 8, Quit_is_function = False\<rparr>"

text \<open>The first handle after \<open>on("loaded", callback 1)\<close> and \<open>on("loaded", callback 2)\<close>.\<close>

definition loaded_twice :: "nat UnityContent" where
  "loaded_twice =
     (let r1 = on (fst first_handle) (snd first_handle) ''loaded'' 1;
          r2 = on (fst (snd r1)) (snd (snd r1)) ''loaded'' 2
      in snd (snd r2))"


text \<open>Callbacks that return and leave the handle alone.\<close>

definition quiet :: "nat behaviour" where
  "quiet cb v h = (Returned, h)"

text \<open>Callback 1 throws the string \<open>"boom"\<close>; the others are quiet.\<close>

definition first_throws :: "nat behaviour" where
  "first_throws cb v h =
     (if cb = 1 then (Threw (Thrown (JString ''boom'')), h) else (Returned, h))"

text \<open>
  Callback 1 calls \<open>on("loaded", callback 3)\<close> on the handle it is called on; the
  others are quiet.
\<close>

definition first_registers :: "nat behaviour" where
  "first_registers cb v h =
     (if cb = 1 then (Returned, snd (snd (on (fst first_handle) h ''loaded'' 3)))
      else (Returned, h))"

text \<open>Callback 1 registers itself once more under \<open>"loaded"\<close> whenever it is called.\<close>

definition first_registers_itself :: "nat behaviour" where
  "first_registers_itself cb v h =
     (if cb = 1 then (Returned, snd (snd (on (fst first_handle) h ''loaded'' 1)))
      else (Returned, h))"

section \<open>Properties\<close>

subsection \<open>The event loop\<close>

text \<open>One turn of the loop, case by case.\<close>

lemma triggerUnityEvent_loop_end:
  "\<not> i < length (unityEvents h) \<Longrightarrow>
     triggerUnityEvent_loop run i name v cs h = Some (Returned, cs, h)"
  by (subst triggerUnityEvent_loop.simps) simp

lemma triggerUnityEvent_loop_skip:
  "i < length (unityEvents h) \<Longrightarrow> eventName (unityEvents h ! i) \<noteq> name \<Longrightarrow>
     triggerUnityEvent_loop run i name v cs h = triggerUnityEvent_loop run (Suc i) name v cs h"
  by (subst triggerUnityEvent_loop.simps) simp

lemma triggerUnityEvent_loop_call:
  "i < length (unityEvents h) \<Longrightarrow> eventName (unityEvents h ! i) = name \<Longrightarrow>
     run (eventCallback (unityEvents h ! i)) v h = (Returned, h') \<Longrightarrow>
     triggerUnityEvent_loop run i name v cs h
       = triggerUnityEvent_loop run (Suc i) name v
           (cs @ [EventCallback (eventCallback (unityEvents h ! i)) v]) h'"
  by (subst triggerUnityEvent_loop.simps) simp

lemma triggerUnityEvent_loop_throw:
  "i < length (unityEvents h) \<Longrightarrow> eventName (unityEvents h ! i) = name \<Longrightarrow>
     run (eventCallback (unityEvents h ! i)) v h = (Threw e, h') \<Longrightarrow>
     triggerUnityEvent_loop run i name v cs h
       = Some (Threw e, cs @ [EventCallback (eventCallback (unityEvents h ! i)) v], h')"
  by (subst triggerUnityEvent_loop.simps) simp

lemmas triggerUnityEvent_loop_turn =
  triggerUnityEvent_loop_end triggerUnityEvent_loop_skip
  triggerUnityEvent_loop_call triggerUnityEvent_loop_throw

lemma triggerUnityEvent_loop_returns:
  assumes "listeners_return run evs name v" and "unityEvents h = evs"
  shows "triggerUnityEvent_loop run i name v cs h
           = Some (Returned,
                   cs @ map (\<lambda>e. EventCallback (eventCallback e) v)
                          (filter (\<lambda>e. eventName e = name) (drop i evs)),
                   after_callbacks run v (filter (\<lambda>e. eventName e = name) (drop i evs)) h)"
  using assms(2)
proof (induction "length evs - i" arbitrary: i cs h)
  case 0
  then have "drop i evs = []"
    by simp
  with 0 show ?case
    by (subst triggerUnityEvent_loop.simps) (simp add: after_callbacks_def)
next
  case (Suc n)
  then have i: "i < length evs" and n: "n = length evs - Suc i"
    by simp_all
  from i have d: "drop i evs = evs ! i # drop (Suc i) evs"
    by (simp add: Cons_nth_drop_Suc)
  show ?case
  proof (cases "eventName (evs ! i) = name")
    case False
    with i d Suc.prems Suc.hyps(1) [OF n Suc.prems] show ?thesis
      by (subst triggerUnityEvent_loop.simps) simp
  next
    case True
    from i have "evs ! i \<in> set evs"
      by simp
    with assms(1) True Suc.prems
    have r: "fst (run (eventCallback (evs ! i)) v h) = Returned"
      and k: "unityEvents (snd (run (eventCallback (evs ! i)) v h)) = evs"
      by (simp_all add: listeners_return_def)
    have "triggerUnityEvent_loop run i name v cs h
            = triggerUnityEvent_loop run (Suc i) name v
                (cs @ [EventCallback (eventCallback (evs ! i)) v])
                (snd (run (eventCallback (evs ! i)) v h))"
      using i True Suc.prems r
      by (subst triggerUnityEvent_loop.simps) (auto split: prod.splits completion.splits)
    also note Suc.hyps(1) [OF n k]
    finally show ?thesis
      using True d by (simp add: after_callbacks_def)
  qed
qed

lemma triggerUnityEvent_returns:
  assumes "listeners_return run (unityEvents h) name (optional_parameter eventValue)"
  shows "triggerUnityEvent run h name eventValue
           = Some (Returned,
                   map (\<lambda>e. EventCallback (eventCallback e) (optional_parameter eventValue))
                     (filter (\<lambda>e. eventName e = name) (unityEvents h)),
                   after_callbacks run (optional_parameter eventValue)
                     (filter (\<lambda>e. eventName e = name) (unityEvents h)) h)"
  using triggerUnityEvent_loop_returns [OF assms refl, of 0 "[]"]
  by (simp add: triggerUnityEvent_def)

lemma listeners_return_quiet:
  "listeners_return quiet evs name v"
  by (simp add: listeners_return_def quiet_def)

lemma first_handle_eq:
  "first_handle =
     (\<lparr>static_uniqueID = 1, window_ReactUnityWebGL = Some Map.empty\<rparr>,
      \<lparr>buildJsonPath = ''Build/game.json'',
       unityLoaderJsPath = ''Build/UnityLoader.js'',
       unityComponent = None,
       unityInstance = None,
       unityConfig =
         \<lparr>modules = Some Map.empty, unityVersion = Some ''undefined'',
          adjustOnWindowResize = None, id_field = Some ''nill''\<rparr>,
       unityEvents = [],
       uniqueID = 1\<rparr>)"
  by (simp add: first_handle_def constructor_def initial_process_def empty_config_def
      number_increment_def)

lemma on_handle:
  "snd (snd (on p h name cb))
     = h\<lparr>unityEvents := unityEvents h @ [\<lparr>eventName = name, eventCallback = cb\<rparr>]\<rparr>"
  by (simp add: on_def Let_def split: option.splits)



lemma loaded_twice_eq:
  "loaded_twice =
     (snd first_handle)
       \<lparr>unityEvents := [\<lparr>eventName = ''loaded'', eventCallback = 1\<rparr>,
                        \<lparr>eventName = ''loaded'', eventCallback = 2\<rparr>]\<rparr>"
  by (simp add: loaded_twice_def Let_def on_def first_handle_eq)




text \<open>
  And the loop reads the list as the callbacks have left it: when callback 1
  registers callback 3 under \<open>"loaded"\<close>, the same dispatch goes on to call
  callback 3.
\<close>

lemma dispatch_sees_new_bindings:
  "triggerUnityEvent first_registers loaded_twice ''loaded'' (Some (JNumber 42))
     = Some (Returned,
             [EventCallback 1 (JNumber 42), EventCallback 2 (JNumber 42),
              EventCallback 3 (JNumber 42)],
             loaded_twice
               \<lparr>unityEvents := [\<lparr>eventName = ''loaded'', eventCallback = 1\<rparr>,
                                \<lparr>eventName = ''loaded'', eventCallback = 2\<rparr>,
                                \<lparr>eventName = ''loaded'', eventCallback = 3\<rparr>]\<rparr>)"
  by (simp add: triggerUnityEvent_def triggerUnityEvent_loop_turn loaded_twice_eq
      first_registers_def on_handle)

text \<open>
  When callback 1 registers itself again each time it is called, every turn of the
  loop finds one more binding to call, and the dispatch does not return.
\<close>

lemma dispatch_never_returns_loop:
  assumes "triggerUnityEvent_loop run i name v cs h = Some y"
  shows "\<not> (run = first_registers_itself \<and> name = ''loaded''
            \<and> i < length (unityEvents h)
            \<and> (\<forall>j < length (unityEvents h). i \<le> j \<longrightarrow>
                  unityEvents h ! j = \<lparr>eventName = ''loaded'', eventCallback = 1\<rparr>))"
proof (rule triggerUnityEvent_loop.raw_induct
    [where P = "\<lambda>run i name v cs h y.
       \<not> (run = first_registers_itself \<and> name = ''loaded''
          \<and> i < length (unityEvents h)
          \<and> (\<forall>j < length (unityEvents h). i \<le> j \<longrightarrow>
                unityEvents h ! j = \<lparr>eventName = ''loaded'', eventCallback = 1\<rparr>))",
     OF _ assms])
  fix loop :: "nat behaviour \<Rightarrow> nat \<Rightarrow> string \<Rightarrow> jsval \<Rightarrow> nat call list \<Rightarrow> nat UnityContent
        \<Rightarrow> (completion \<times> nat call list \<times> nat UnityContent) option"
    and run :: "nat behaviour" and i name v cs and h :: "nat UnityContent" and y
  let ?b = "\<lparr>eventName = ''loaded'', eventCallback = 1::nat\<rparr>"
  let ?h = "h\<lparr>unityEvents := unityEvents h @ [?b]\<rparr>"
  assume IH: "\<And>run i name v cs (h :: nat UnityContent) y. loop run i name v cs h = Some y \<Longrightarrow>
       \<not> (run = first_registers_itself \<and> name = ''loaded''
          \<and> i < length (unityEvents h)
          \<and> (\<forall>j < length (unityEvents h). i \<le> j \<longrightarrow> unityEvents h ! j = ?b))"
    and step: "(if i < length (unityEvents h)
      then if eventName (unityEvents h ! i) = name
           then case run (eventCallback (unityEvents h ! i)) v h of
                (Returned, h') \<Rightarrow>
                  loop run (Suc i) name v
                   (cs @ [EventCallback (eventCallback (unityEvents h ! i)) v]) h'
                | (Threw e, h') \<Rightarrow>
                    Some (Threw e, cs @ [EventCallback (eventCallback (unityEvents h ! i)) v], h')
           else loop run (Suc i) name v cs h
      else Some (Returned, cs, h)) = Some y"
  show "\<not> (run = first_registers_itself \<and> name = ''loaded''
          \<and> i < length (unityEvents h)
          \<and> (\<forall>j < length (unityEvents h). i \<le> j \<longrightarrow> unityEvents h ! j = ?b))"
  proof
    assume a: "run = first_registers_itself \<and> name = ''loaded''
          \<and> i < length (unityEvents h)
          \<and> (\<forall>j < length (unityEvents h). i \<le> j \<longrightarrow> unityEvents h ! j = ?b)"
    then have b: "unityEvents h ! i = ?b"
      by simp
    with a step have "loop run (Suc i) name v (cs @ [EventCallback 1 v]) ?h = Some y"
      by (simp add: first_registers_itself_def on_handle)
    moreover have "Suc i < length (unityEvents ?h)"
      using a by simp
    moreover have "\<forall>j < length (unityEvents ?h). Suc i \<le> j \<longrightarrow> unityEvents ?h ! j = ?b"
      using a by (auto simp: nth_append)
    ultimately show False
      using IH a by blast
  qed
qed

lemma dispatch_never_returns:
  "triggerUnityEvent first_registers_itself
     (snd (snd (on (fst first_handle) (snd first_handle) ''loaded'' 1))) ''loaded'' None = None"
proof (cases "triggerUnityEvent first_registers_itself
     (snd (snd (on (fst first_handle) (snd first_handle) ''loaded'' 1))) ''loaded'' None")
  case None
  then show ?thesis .
next
  case (Some y)
  then have False
    by (auto simp: triggerUnityEvent_def on_handle first_handle_eq
        dest!: dispatch_never_returns_loop)
  then show ?thesis ..
qed

text \<open>
  C8. \<open>triggerUnityEvent\<close> with a name that no binding of the handle carries
  returns, whatever the callbacks do, having called nothing, and leaves the handle,
  its binding list included, as it was.
\<close>

theorem dispatch_unbound_name:
  assumes "name \<notin> set (map eventName (unityEvents h))"
  shows "triggerUnityEvent run h name eventValue = Some (Returned, [], h)
         \<and> map_option (\<lambda>(c, cs, h'). unityEvents h') (triggerUnityEvent run h name eventValue)
             = Some (unityEvents h)"
proof -
  from assms have f: "filter (\<lambda>e. eventName e = name) (unityEvents h) = []"
    by (auto simp: filter_empty_conv)
  from assms have "listeners_return run (unityEvents h) name (optional_parameter eventValue)"
    by (auto simp: listeners_return_def)
  from triggerUnityEvent_returns [OF this] show ?thesis
    by (simp add: f after_callbacks_def)
qed

theorem dispatch_unbound_name_witness:
  "''missing'' \<notin> set (map eventName (unityEvents loaded_twice))
   \<and> triggerUnityEvent first_throws loaded_twice ''missing'' None
       = Some (Returned, [], loaded_twice)"
proof -
  have n: "''missing'' \<notin> set (map eventName (unityEvents loaded_twice))"
    by (simp add: loaded_twice_eq)
  from n dispatch_unbound_name [OF n, of first_throws None] show ?thesis
    by simp
qed

subsection \<open>Construction\<close>

text \<open>
  C3. A configuration that supplies only \<open>unityVersion: "2020.1"\<close> is merged into
  one with an empty module map, the id \<open>"nill"\<close>, the version \<open>"2020.1"\<close> and no
  \<open>adjustOnWindowResize\<close>. For any supplied configuration \<open>c\<close>: an absent module
  map becomes the empty map, an absent version \<open>"undefined"\<close>, an absent id
  \<open>"nill"\<close>, and \<open>adjustOnWindowResize\<close> is copied, absent or not; with no
  configuration object at all every field gets its default.
\<close>

theorem constructor_config_defaults:
  "unityConfig (snd (constructor p b l
       (Some \<lparr>modules = None, unityVersion = Some ''2020.1'',
              adjustOnWindowResize = None, id_field = None\<rparr>)))
     = \<lparr>modules = Some Map.empty, unityVersion = Some ''2020.1'',
        adjustOnWindowResize = None, id_field = Some ''nill''\<rparr>
   \<and> (modules c = None \<longrightarrow>
        modules (unityConfig (snd (constructor p b l (Some c)))) = Some Map.empty)
   \<and> (unityVersion c = None \<longrightarrow>
        unityVersion (unityConfig (snd (constructor p b l (Some c)))) = Some ''undefined'')
   \<and> (id_field c = None \<longrightarrow>
        id_field (unityConfig (snd (constructor p b l (Some c)))) = Some ''nill'')
   \<and> adjustOnWindowResize (unityConfig (snd (constructor p b l (Some c))))
       = adjustOnWindowResize c
   \<and> unityConfig (snd (constructor p b l None))
       = \<lparr>modules = Some Map.empty, unityVersion = Some ''undefined'',
          adjustOnWindowResize = None, id_field = Some ''nill''\<rparr>"
  by (simp add: constructor_def Let_def empty_config_def)

theorem constructor_config_defaults_witness:
  "modules \<lparr>modules = None, unityVersion = None,
            adjustOnWindowResize = Some True, id_field = None\<rparr> = None
   \<and> unityConfig (snd (constructor (initial_process :: nat process) ''Build/game.json''
         ''Build/UnityLoader.js''
         (Some \<lparr>modules = None, unityVersion = None,
                adjustOnWindowResize = Some True, id_field = None\<rparr>)))
       = \<lparr>modules = Some Map.empty, unityVersion = Some ''undefined'',
          adjustOnWindowResize = Some True, id_field = Some ''nill''\<rparr>"
  using constructor_config_defaults [of "initial_process :: nat process" "''Build/game.json''"
      "''Build/UnityLoader.js''"
      "\<lparr>modules = None, unityVersion = None, adjustOnWindowResize = Some True, id_field = None\<rparr>"]
  by (simp add: constructor_def Let_def)

subsection \<open>Registration\<close>

text \<open>
  C4. On a handle of a process whose global object exists, \<open>on(eventName, callback)\<close>
  returns, having put the binding at the end of the handle's list and having set the
  entry \<open>eventName\<close> of the global object, whatever it was, to the callback, all other
  entries untouched. A call through the global object then reaches this callback
  alone, while the handle's list holds every earlier binding of the name and then
  this one; after a second registration under the same name the global object
  reaches only the second callback, and the list holds both after the earlier ones.
  \<open>triggerUnityEvent\<close> calls all of them in that order, provided the callbacks
  bound to the name return and register no further bindings.
\<close>

theorem on_appends_and_overwrites:
  assumes "window_ReactUnityWebGL p = Some ns"
  shows "on p h name cb
           = (Returned,
              p\<lparr>window_ReactUnityWebGL := Some (ns(name \<mapsto> cb))\<rparr>,
              h\<lparr>unityEvents := unityEvents h @ [\<lparr>eventName = name, eventCallback = cb\<rparr>]\<rparr>)
         \<and> ReactUnityWebGL_call (fst (snd (on p h name cb))) name [v]
             = Some [EventCallback cb v]
         \<and> filter (\<lambda>e. eventName e = name) (unityEvents (snd (snd (on p h name cb))))
             = filter (\<lambda>e. eventName e = name) (unityEvents h)
                 @ [\<lparr>eventName = name, eventCallback = cb\<rparr>]
         \<and> (listeners_return run (unityEvents (snd (snd (on p h name cb)))) name v \<longrightarrow>
              map_option (\<lambda>(c, cs, h'). (c, cs))
                  (triggerUnityEvent run (snd (snd (on p h name cb))) name (Some v))
                = Some (Returned,
                        map (\<lambda>e. EventCallback (eventCallback e) v)
                          (filter (\<lambda>e. eventName e = name) (unityEvents h))
                          @ [EventCallback cb v]))
         \<and> (let r1 = on p h name cb;
                 r2 = on (fst (snd r1)) (snd (snd r1)) name cb'
             in ReactUnityWebGL_call (fst (snd r2)) name [v]
                  = Some [EventCallback cb' v]
                \<and> filter (\<lambda>e. eventName e = name) (unityEvents (snd (snd r2)))
                    = filter (\<lambda>e. eventName e = name) (unityEvents h)
                        @ [\<lparr>eventName = name, eventCallback = cb\<rparr>,
                           \<lparr>eventName = name, eventCallback = cb'\<rparr>]
                \<and> (listeners_return run (unityEvents (snd (snd r2))) name v \<longrightarrow>
                     map_option (\<lambda>(c, cs, h'). (c, cs))
                         (triggerUnityEvent run (snd (snd r2)) name (Some v))
                       = Some (Returned,
                               map (\<lambda>e. EventCallback (eventCallback e) v)
                                 (filter (\<lambda>e. eventName e = name) (unityEvents h))
                                 @ [EventCallback cb v, EventCallback cb' v])))"
proof -
  let ?h1 = "snd (snd (on p h name cb))"
  let ?h2 = "snd (snd (on (fst (snd (on p h name cb))) ?h1 name cb'))"
  have o: "on p h name cb
           = (Returned,
              p\<lparr>window_ReactUnityWebGL := Some (ns(name \<mapsto> cb))\<rparr>,
              h\<lparr>unityEvents := unityEvents h @ [\<lparr>eventName = name, eventCallback = cb\<rparr>]\<rparr>)"
    using assms by (simp add: on_def Let_def)
  have c1: "ReactUnityWebGL_call (fst (snd (on p h name cb))) name [v] = Some [EventCallback cb v]"
    by (simp add: o ReactUnityWebGL_call_def)
  have c2: "ReactUnityWebGL_call (fst (snd (on (fst (snd (on p h name cb))) ?h1 name cb'))) name [v]
      = Some [EventCallback cb' v]"
    using assms by (simp add: on_def Let_def ReactUnityWebGL_call_def)
  have f1: "filter (\<lambda>e. eventName e = name) (unityEvents ?h1)
      = filter (\<lambda>e. eventName e = name) (unityEvents h) @ [\<lparr>eventName = name, eventCallback = cb\<rparr>]"
    by (simp add: on_handle)
  have f2: "filter (\<lambda>e. eventName e = name) (unityEvents ?h2)
      = filter (\<lambda>e. eventName e = name) (unityEvents h)
          @ [\<lparr>eventName = name, eventCallback = cb\<rparr>, \<lparr>eventName = name, eventCallback = cb'\<rparr>]"
    by (simp add: on_handle)
  have t1: "map_option (\<lambda>(c, cs, h'). (c, cs)) (triggerUnityEvent run ?h1 name (Some v))
      = Some (Returned,
              map (\<lambda>e. EventCallback (eventCallback e) v)
                (filter (\<lambda>e. eventName e = name) (unityEvents h)) @ [EventCallback cb v])"
    if "listeners_return run (unityEvents ?h1) name v"
    using triggerUnityEvent_returns [of run ?h1 name "Some v"] that
    by (simp add: f1)
  have t2: "map_option (\<lambda>(c, cs, h'). (c, cs)) (triggerUnityEvent run ?h2 name (Some v))
      = Some (Returned,
              map (\<lambda>e. EventCallback (eventCallback e) v)
                (filter (\<lambda>e. eventName e = name) (unityEvents h))
                @ [EventCallback cb v, EventCallback cb' v])"
    if "listeners_return run (unityEvents ?h2) name v"
    using triggerUnityEvent_returns [of run ?h2 name "Some v"] that
    by (simp add: f2)
  from o c1 c2 f1 f2 t1 t2 show ?thesis
    unfolding Let_def by blast
qed

theorem on_appends_and_overwrites_witness:
  "window_ReactUnityWebGL (fst first_handle) = Some Map.empty
   \<and> on (fst first_handle) (snd first_handle) ''progress'' 5
       = (Returned,
          \<lparr>static_uniqueID = 1, window_ReactUnityWebGL = Some [''progress'' \<mapsto> 5]\<rparr>,
          (snd first_handle)\<lparr>unityEvents := [\<lparr>eventName = ''progress'', eventCallback = 5\<rparr>]\<rparr>)
   \<and> listeners_return quiet
         (unityEvents (snd (snd (on (fst first_handle) (snd first_handle) ''progress'' 5))))
         ''progress'' JNull
   \<and> map_option (\<lambda>(c, cs, h'). (c, cs))
         (triggerUnityEvent quiet
            (snd (snd (on (fst first_handle) (snd first_handle) ''progress'' 5)))
            ''progress'' (Some JNull))
       = Some (Returned, [EventCallback 5 JNull])"
proof -
  have ns: "window_ReactUnityWebGL (fst first_handle) = Some Map.empty"
    by (simp add: first_handle_eq)
  have l: "listeners_return quiet evs ''progress'' JNull" for evs
    by (rule listeners_return_quiet)
  have e: "unityEvents (snd first_handle) = []"
    by (simp add: first_handle_eq)
  note th = on_appends_and_overwrites [OF ns, of "snd first_handle" "''progress''" 5 JNull quiet 6]
  have a: "on (fst first_handle) (snd first_handle) ''progress'' 5
       = (Returned,
          \<lparr>static_uniqueID = 1, window_ReactUnityWebGL = Some [''progress'' \<mapsto> 5]\<rparr>,
          (snd first_handle)\<lparr>unityEvents := [\<lparr>eventName = ''progress'', eventCallback = 5\<rparr>]\<rparr>)"
    using th [THEN conjunct1] by (simp add: first_handle_eq)
  have b: "map_option (\<lambda>(c, cs, h'). (c, cs))
         (triggerUnityEvent quiet
            (snd (snd (on (fst first_handle) (snd first_handle) ''progress'' 5)))
            ''progress'' (Some JNull))
       = Some (Returned, [EventCallback 5 JNull])"
    using th [THEN conjunct2, THEN conjunct2, THEN conjunct2, THEN conjunct1] l e by simp
  from ns a l b show ?thesis
    by blast
qed

subsection \<open>Removal\<close>




text \<open>
  C6. With no instance attached, or with one whose \<open>Quit\<close> is not a function,
  \<open>remove\<close> makes one call, the warning of the logging service, and returns with the
  handle as it was: \<open>Quit\<close> is not called, so no callback that would dispatch
  \<open>"quitted"\<close> is handed out, and the method has no statement that throws.
\<close>

theorem remove_unavailable_warns:
  assumes "unityInstance h = None
           \<or> (\<exists>inst. unityInstance h = Some inst \<and> \<not> Quit_is_function inst)"
  shows "remove_content run h = ([warnUnityContentRemoveNotAvailable], h)"
  using assms by (auto simp: remove_content_def)

theorem remove_unavailable_warns_witness:
  "unityInstance (snd first_handle) = None
   \<and> remove_content quiet (snd first_handle) = ([warnUnityContentRemoveNotAvailable], snd first_handle)
   \<and> unityInstance (snd (setUnityInstance (snd first_handle) plain_instance)) = Some plain_instance
   \<and> \<not> Quit_is_function plain_instance
   \<and> remove_content quiet (snd (setUnityInstance (snd first_handle) plain_instance))
       = ([warnUnityContentRemoveNotAvailable],
          snd (setUnityInstance (snd first_handle) plain_instance))"
proof -
  let ?h = "snd (setUnityInstance (snd first_handle) plain_instance) :: nat UnityContent"
  have n: "unityInstance (snd first_handle) = None"
    by (simp add: first_handle_eq)
  have i: "unityInstance ?h = Some plain_instance"
    by (simp add: setUnityInstance_def)
  have q: "\<not> Quit_is_function plain_instance"
    by (simp add: plain_instance_def)
  from i q have "unityInstance ?h = None
      \<or> (\<exists>inst. unityInstance ?h = Some inst \<and> \<not> Quit_is_function inst)"
    by blast
  from n i q remove_unavailable_warns [of "snd first_handle" quiet] remove_unavailable_warns [OF this, of quiet]
  show ?thesis
    by simp
qed

subsection \<open>Messages to the runtime instance\<close>

text \<open>
  C7. Before an instance is attached \<open>send\<close> makes no call and returns the handle as
  it was; it has no statement that throws and does not refer to the global object.
  With an instance attached it makes exactly one call, \<open>SendMessage\<close> on that
  instance with the object name and the method name: two arguments when the caller
  left the parameter out, and the parameter as a third argument when the caller
  supplied one that is not \<open>undefined\<close>. The handle is unchanged.
\<close>

theorem send_forwards_once:
  "(unityInstance h = None \<longrightarrow> send h gameObjectName methodName parameter = ([], h))
   \<and> (unityInstance h = Some inst \<longrightarrow>
        send h gameObjectName methodName None
          = ([SendMessage inst [JString gameObjectName, JString methodName]], h)
        \<and> (v \<noteq> JUndefined \<longrightarrow>
             send h gameObjectName methodName (Some v)
               = ([SendMessage inst [JString gameObjectName, JString methodName, v]], h)))"
  by (simp add: send_def)

theorem send_forwards_once_witness:
  "unityInstance (snd first_handle) = None
   \<and> send (snd first_handle) ''Player'' ''Jump'' (Some (JNumber 3)) = ([], snd first_handle)
   \<and> unityInstance (snd (setUnityInstance (snd first_handle) plain_instance)) = Some plain_instance
   \<and> JNumber 3 \<noteq> JUndefined
   \<and> send (snd (setUnityInstance (snd first_handle) plain_instance)) ''Player'' ''Jump''
         (Some (JNumber 3))
       = ([SendMessage plain_instance [JString ''Player'', JString ''Jump'', JNumber 3]],
          snd (setUnityInstance (snd first_handle) plain_instance))
   \<and> send (snd (setUnityInstance (snd first_handle) plain_instance)) ''Player'' ''Jump'' None
       = ([SendMessage plain_instance [JString ''Player'', JString ''Jump'']],
          snd (setUnityInstance (snd first_handle) plain_instance))"
proof -
  let ?h = "snd (setUnityInstance (snd first_handle) plain_instance) :: nat UnityContent"
  have n: "unityInstance (snd first_handle) = None"
    by (simp add: first_handle_eq)
  have i: "unityInstance ?h = Some plain_instance"
    by (simp add: setUnityInstance_def)
  from n i
    send_forwards_once [of "snd first_handle" "''Player''" "''Jump''" "Some (JNumber 3)"
      plain_instance "JNumber 3"]
    send_forwards_once [of ?h "''Player''" "''Jump''" None plain_instance "JNumber 3"]
  show ?thesis
    by simp
qed

text \<open>
  C10. With an instance attached, \<open>send(objectName, methodName, undefined)\<close> makes the
  same call as \<open>send(objectName, methodName)\<close>: \<open>SendMessage\<close> with two arguments.
\<close>

theorem send_undefined_is_omitted:
  assumes "unityInstance h = Some inst"
  shows "send h gameObjectName methodName (Some JUndefined)
           = send h gameObjectName methodName None
         \<and> send h gameObjectName methodName (Some JUndefined)
             = ([SendMessage inst [JString gameObjectName, JString methodName]], h)"
  using assms by (simp add: send_def)

theorem send_undefined_is_omitted_witness:
  "unityInstance (snd (setUnityInstance (snd first_handle) quitting_instance))
     = Some quitting_instance
   \<and> send (snd (setUnityInstance (snd first_handle) quitting_instance)) ''Player'' ''Jump''
         (Some JUndefined)
       = ([SendMessage quitting_instance [JString ''Player'', JString ''Jump'']],
          snd (setUnityInstance (snd first_handle) quitting_instance))"
proof -
  let ?h = "snd (setUnityInstance (snd first_handle) quitting_instance) :: nat UnityContent"
  have i: "unityInstance ?h = Some quitting_instance"
    by (simp add: setUnityInstance_def)
  from i send_undefined_is_omitted [OF i, of "''Player''" "''Jump''", THEN conjunct2] show ?thesis
    by simp
qed

text \<open>
  C9. Without an instance \<open>setFullscreen\<close> makes no call and changes nothing. With
  one it makes exactly one call, \<open>SetFullscreen\<close> on that instance, with 1 when the
  argument is the boolean \<open>true\<close> and with 0 for every other value, and leaves the
  handle as it was.
\<close>

theorem setFullscreen_strict_true:
  "(unityInstance h = None \<longrightarrow> setFullscreen h fullscreen = ([], h))
   \<and> (unityInstance h = Some inst \<longrightarrow>
        setFullscreen h (JBoolean True) = ([SetFullscreen inst 1], h)
        \<and> (fullscreen \<noteq> JBoolean True \<longrightarrow>
             setFullscreen h fullscreen = ([SetFullscreen inst 0], h)))"
  by (simp add: setFullscreen_def)

theorem setFullscreen_strict_true_witness:
  "unityInstance (snd first_handle) = None
   \<and> setFullscreen (snd first_handle) (JBoolean True) = ([], snd first_handle)
   \<and> unityInstance (snd (setUnityInstance (snd first_handle) plain_instance)) = Some plain_instance
   \<and> JNumber 1 \<noteq> JBoolean True
   \<and> setFullscreen (snd (setUnityInstance (snd first_handle) plain_instance)) (JNumber 1)
       = ([SetFullscreen plain_instance 0],
          snd (setUnityInstance (snd first_handle) plain_instance))
   \<and> setFullscreen (snd (setUnityInstance (snd first_handle) plain_instance)) (JBoolean True)
       = ([SetFullscreen plain_instance 1],
          snd (setUnityInstance (snd first_handle) plain_instance))"
proof -
  let ?h = "snd (setUnityInstance (snd first_handle) plain_instance) :: nat UnityContent"
  have n: "unityInstance (snd first_handle) = None"
    by (simp add: first_handle_eq)
  have i: "unityInstance ?h = Some plain_instance"
    by (simp add: setUnityInstance_def)
  from n i
    setFullscreen_strict_true [of "snd first_handle" "JBoolean True" plain_instance]
    setFullscreen_strict_true [of ?h "JNumber 1" plain_instance]
  show ?thesis
    by simp
qed

subsection \<open>Identifiers\<close>

text \<open>
  The global object exists once a handle has been constructed, keeps its entries
  through later constructions and through \<open>on\<close>; \<open>on\<close> does not touch the counter.
\<close>

lemma constructor_creates_namespace:
  "window_ReactUnityWebGL (fst (constructor p b l c)) \<noteq> None"
  by (simp add: constructor_def Let_def split: option.splits)

lemma constructor_keeps_namespace:
  "window_ReactUnityWebGL p = Some ns \<Longrightarrow>
     window_ReactUnityWebGL (fst (constructor p b l c)) = Some ns"
  by (simp add: constructor_def Let_def)

lemma on_keeps_namespace:
  "window_ReactUnityWebGL p \<noteq> None \<Longrightarrow>
     window_ReactUnityWebGL (fst (snd (on p h name cb))) \<noteq> None"
  by (auto simp: on_def Let_def)

lemma on_keeps_counter:
  "static_uniqueID (fst (snd (on p h name cb))) = static_uniqueID p"
  by (simp add: on_def Let_def split: option.splits)

lemma constructor_ids:
  "static_uniqueID (fst (constructor p b l c)) = number_increment (static_uniqueID p)"
  "uniqueID (snd (constructor p b l c)) = number_increment (static_uniqueID p)"
  by (simp_all add: constructor_def Let_def)

lemma constructions_Cons:
  "snd (constructions p ((b, l, c) # rest))
     = snd (constructor p b l c) # snd (constructions (fst (constructor p b l c)) rest)"
  by (simp split: prod.splits)

lemma length_constructions:
  "length (snd (constructions p args)) = length args"
proof (induction args arbitrary: p)
  case Nil
  then show ?case by simp
next
  case (Cons a args)
  obtain b l c where "a = (b, l, c)"
    by (cases a)
  with Cons.IH show ?case
    by (simp only: constructions_Cons) simp
qed

lemma number_increment_funpow:
  "n \<le> 2 ^ 53 \<Longrightarrow> (number_increment ^^ k) n = min (2 ^ 53) (n + k)"
proof (induction k)
  case 0
  then show ?case by simp
next
  case (Suc k)
  then have "(number_increment ^^ Suc k) n = number_increment (min (2 ^ 53) (n + k))"
    by simp
  also have "\<dots> = min (2 ^ 53) (n + Suc k)"
    unfolding number_increment_def min_def by auto
  finally show ?case .
qed

lemma constructions_ids_funpow:
  "map uniqueID (snd (constructions p args))
     = map (\<lambda>k. (number_increment ^^ Suc k) (static_uniqueID p)) [0..<length args]"
proof (induction args arbitrary: p)
  case Nil
  then show ?case by simp
next
  case (Cons a args)
  obtain b l c where a: "a = (b, l, c)"
    by (cases a)
  let ?p = "fst (constructor p b l c)"
  have "map uniqueID (snd (constructions p (a # args)))
          = uniqueID (snd (constructor p b l c)) # map uniqueID (snd (constructions ?p args))"
    unfolding a constructions_Cons by simp
  also have "\<dots> = number_increment (static_uniqueID p)
                  # map (\<lambda>k. (number_increment ^^ Suc k) (number_increment (static_uniqueID p)))
                      [0..<length args]"
    by (simp only: Cons.IH constructor_ids)
  also have "\<dots> = map (\<lambda>k. (number_increment ^^ Suc k) (static_uniqueID p))
                     [0..<length (a # args)]"
  proof -
    have "[0..<length (a # args)] = 0 # map Suc [0..<length args]"
      by (simp add: upt_conv_Cons map_Suc_upt del: upt_Suc)
    then show ?thesis
      by (simp add: funpow_swap1 o_def del: upt_Suc)
  qed
  finally show ?case .
qed

lemma constructions_ids:
  assumes "static_uniqueID p \<le> 2 ^ 53"
  shows "map uniqueID (snd (constructions p args))
           = map (\<lambda>k. min (2 ^ 53) (static_uniqueID p + Suc k)) [0..<length args]"
  by (simp only: constructions_ids_funpow number_increment_funpow [OF assms])

lemma constructions_nth_id:
  assumes "static_uniqueID p \<le> 2 ^ 53" and "i < length args"
  shows "uniqueID (snd (constructions p args) ! i) = min (2 ^ 53) (static_uniqueID p + Suc i)"
proof -
  from assms(2) have "uniqueID (snd (constructions p args) ! i)
      = map uniqueID (snd (constructions p args)) ! i"
    by (simp add: length_constructions)
  also have "\<dots> = min (2 ^ 53) (static_uniqueID p + Suc i)"
    unfolding constructions_ids [OF assms(1)] using assms(2) by simp
  finally show ?thesis .
qed

text \<open>
  C2. In a run of constructions that does not take the counter past \<open>2 ^ 53\<close>, the
  handles get the consecutive numbers after the counter's value at the start: each id
  is greater than the ids of the handles constructed before it in the run, the ids
  are pairwise different, and all are greater than the counter at the start (hence
  than every id handed out earlier in the process).
\<close>

theorem ids_increase:
  assumes "static_uniqueID p + length args \<le> 2 ^ 53"
  shows "map uniqueID (snd (constructions p args))
           = map (\<lambda>k. static_uniqueID p + Suc k) [0..<length args]
         \<and> sorted_wrt (<) (map uniqueID (snd (constructions p args)))
         \<and> distinct (map uniqueID (snd (constructions p args)))
         \<and> list_all (\<lambda>h. static_uniqueID p < uniqueID h) (snd (constructions p args))"
proof -
  from assms have le: "static_uniqueID p \<le> 2 ^ 53"
    by simp
  have ids: "map uniqueID (snd (constructions p args))
           = map (\<lambda>k. static_uniqueID p + Suc k) [0..<length args]"
    using assms by (simp add: constructions_ids [OF le] min_def)
  have s: "sorted_wrt (<) (map (\<lambda>k. static_uniqueID p + Suc k) [0..<length args])"
    by (simp add: sorted_wrt_map sorted_wrt_upt)
  have d: "distinct (map (\<lambda>k. static_uniqueID p + Suc k) [0..<length args])"
    by (simp add: distinct_map inj_on_def)
  have "list_all (\<lambda>n. static_uniqueID p < n) (map uniqueID (snd (constructions p args)))"
    unfolding ids by (simp add: list_all_iff)
  then have g: "list_all (\<lambda>h. static_uniqueID p < uniqueID h) (snd (constructions p args))"
    by (simp add: list_all_iff)
  from ids s d g show ?thesis
    by simp
qed

theorem ids_increase_witness:
  "static_uniqueID (initial_process :: nat process) + length [(''a'', ''b'', None), (''c'', ''d'', None), (''e'', ''f'', None)] \<le> 2 ^ 53
   \<and> map uniqueID (snd (constructions (initial_process :: nat process)
         [(''a'', ''b'', None), (''c'', ''d'', None), (''e'', ''f'', None)])) = [1, 2, 3]"
proof -
  have h: "static_uniqueID (initial_process :: nat process) + length [(''a'', ''b'', None :: IUnityConfig option), (''c'', ''d'', None), (''e'', ''f'', None)] \<le> 2 ^ 53"
    by (simp add: initial_process_def)
  from h ids_increase [OF h] show ?thesis
    by (simp add: initial_process_def upt_conv_Cons)
qed

text \<open>
  Past that the counter stops: \<open>2 ^ 53 + 1\<close> is not a double, and \<open>++\<close> leaves
  \<open>2 ^ 53\<close> where it is. In a fresh process the handle constructed as number
  \<open>2 ^ 53\<close> and the one constructed after it carry the same id.
\<close>

theorem ids_repeat:
  "uniqueID (snd (constructions (initial_process :: nat process)
       (replicate 9007199254740993 (''Build/game.json'', ''Build/UnityLoader.js'', None)))
     ! 9007199254740991) = 9007199254740992
   \<and> uniqueID (snd (constructions (initial_process :: nat process)
       (replicate 9007199254740993 (''Build/game.json'', ''Build/UnityLoader.js'', None)))
     ! 9007199254740992) = 9007199254740992"
proof -
  let ?args = "replicate 9007199254740993 (''Build/game.json'', ''Build/UnityLoader.js'', None :: IUnityConfig option)"
  have z: "static_uniqueID (initial_process :: nat process) \<le> 2 ^ 53"
    by (simp add: initial_process_def)
  have z0: "static_uniqueID (initial_process :: nat process) = 0"
    by (simp add: initial_process_def)
  have l1: "(9007199254740991::nat) < length ?args"
    by (simp only: length_replicate)
  have l2: "(9007199254740992::nat) < length ?args"
    by (simp only: length_replicate)
  have "uniqueID (snd (constructions (initial_process :: nat process) ?args) ! 9007199254740991)
          = min (2 ^ 53) (0 + Suc 9007199254740991)"
    using constructions_nth_id [OF z l1] unfolding z0 .
  moreover
  have "uniqueID (snd (constructions (initial_process :: nat process) ?args) ! 9007199254740992)
          = min (2 ^ 53) (0 + Suc 9007199254740992)"
    using constructions_nth_id [OF z l2] unfolding z0 .
  ultimately show ?thesis
    by simp
qed

end
